theory Spec2Isabelle
  imports Complex_Main
begin

section \<open>Data model of \<open>hessian_eigenthings/lanczos.py\<close>\<close>

text \<open>
  Python exceptions that the function can end with.  \<open>TypeError\<close> and \<open>IndexError\<close> are what
  the subscript \<open>operator.size[0]\<close> raises, \<open>ValueError\<close> is what \<open>np.random.rand\<close> raises on a
  negative length, \<open>RuntimeError\<close> is what \<open>Tensor.numpy\<close> raises on a tensor that requires
  grad, \<open>OverflowError\<close> is the one exception that the constructor of scipy's linear operator
  catches, \<open>OtherError\<close> stands for any other exception (by its message).
\<close>

datatype py_exn =
  TypeError | IndexError | ValueError | RuntimeError | OverflowError | OtherError string

text \<open>
  The attribute \<open>operator.size\<close>: an \<open>int\<close>, a shape (a tuple or \<open>torch.Size\<close> of ints), or
  any other object, one that is neither an \<open>int\<close> nor subscriptable (\<open>None\<close>, a float).
\<close>

datatype py_size = SizeInt int | SizeShape "int list" | SizeOther

datatype device = Cpu | Cuda

record 'a tensor =
  data :: "'a list"
  device :: device
  requires_grad :: bool

text \<open>The argument \<open>init_vec\<close>, when it is not \<open>None\<close>: a torch tensor or a host array.\<close>

datatype 'a py_vec = Tensor "'a tensor" | Array "'a list"

text \<open>A two-dimensional numpy array, row by row, with its shape.\<close>

record 'a array2 =
  nrows :: nat
  ncols :: nat
  rows :: "'a list list"

text \<open>
  The arguments of \<open>scipy.sparse.linalg.eigsh\<close>.  \<open>e_v0\<close> is the starting vector of
  the iteration; eigsh takes a random one when it is \<open>None\<close>.
\<close>

record 'a eigsh_args =
  e_shape :: "int \<times> int"
  e_k :: int
  e_which :: string
  e_maxiter :: int
  e_tol :: real
  e_ncv :: int
  e_v0 :: "'a list option"
  e_return_eigenvectors :: bool

text \<open>
  Code of scipy that calls the callback back: it returns, raises, or asks for the product of
  the operator with a host array and goes on with the outcome of the callback, the product or
  the exception.  Code that does not catch the exception goes on with \<open>Raise\<close> of it.
\<close>

datatype ('a, 'r) prog =
  Return 'r
| Raise py_exn
| Matvec "'a list" "py_exn + 'a list \<Rightarrow> ('a, 'r) prog"

text \<open>
  The operator is an object of type \<open>'o\<close> (its fields) with two members: the attribute
  \<open>size\<close> and the method \<open>apply\<close>, which returns a tensor or raises, and may change the object.
\<close>

record ('a, 'o) operator_class =
  op_size :: "'o \<Rightarrow> py_size"
  op_apply :: "'o \<Rightarrow> 'a tensor \<Rightarrow> (py_exn + 'a tensor) \<times> 'o"

text \<open>
  What the function takes from torch, numpy and scipy:
  \<^item> \<open>half\<close>: the cast of one element to 16-bit precision (\<open>torch.Tensor.half\<close>);
  \<^item> \<open>rand\<close>: the stream of values of numpy's global random source;
  \<^item> \<open>linop_init\<close>: the constructor of \<open>scipy.sparse.linalg.LinearOperator\<close> for a shape;
  \<^item> \<open>arpack\<close>: the iteration of \<open>eigsh\<close> from a starting vector;
  \<^item> \<open>start_vec\<close>: the starting vector that \<open>eigsh\<close> takes when it is given none.
\<close>

record 'a externals =
  half :: "'a \<Rightarrow> 'a"
  rand :: "nat \<Rightarrow> 'a"
  linop_init :: "int \<times> int \<Rightarrow> ('a, unit) prog"
  arpack :: "'a eigsh_args \<Rightarrow> 'a list \<Rightarrow> ('a, 'a list \<times> 'a array2) prog"
  start_vec :: "nat \<Rightarrow> int \<Rightarrow> 'a list"

text \<open>
  The state a call runs in: the operator object, the number of calls of its \<open>apply\<close>, the
  warnings emitted, the position in numpy's random stream, the state of the solver's own
  random source, and the calls of \<open>eigsh\<close> made so far.
\<close>

record ('a, 'o) world =
  operator :: 'o
  apply_calls :: nat
  warnings :: "string list"
  np_random :: nat
  solver_random :: nat
  eigsh_calls :: "'a eigsh_args list"

text \<open>The parameters of \<open>lanczos\<close> other than the operator (lines 13 to 20).\<close>

record 'a params =
  num_eigenthings :: int
  which :: string
  max_steps :: int
  tol :: real
  num_lanczos_vectors :: "int option"
  init_vec :: "'a py_vec option"
  use_gpu :: bool
  fp16 :: bool

section \<open>The operations\<close>

text \<open>Lines 55 to 58: \<open>operator.size\<close> if it is an int, \<open>operator.size[0]\<close> otherwise.\<close>

fun operator_size :: "py_size \<Rightarrow> py_exn + int" where
  "operator_size (SizeInt n) = Inr n"
| "operator_size (SizeShape []) = Inl IndexError"
| "operator_size (SizeShape (n # ns)) = Inr n"
| "operator_size SizeOther = Inl TypeError"

text \<open>Lines 61 and 62.\<close>

definition derive_num_lanczos_vectors :: "int option \<Rightarrow> int \<Rightarrow> int \<Rightarrow> int" where
  "derive_num_lanczos_vectors nlv k sz =
     (case nlv of None \<Rightarrow> min (2 * k) (sz - 1) | Some v \<Rightarrow> v)"

definition advisory :: string where
  "advisory = ''[lanczos] number of lanczos vectors should usually be > 2*num_eigenthings''"

definition warn :: "string \<Rightarrow> ('a, 'o) world \<Rightarrow> ('a, 'o) world" where
  "warn msg w = w\<lparr>warnings := warnings w @ [msg]\<rparr>"

text \<open>Lines 63 to 66.\<close>

definition warn_if_few :: "int \<Rightarrow> int \<Rightarrow> ('a, 'o) world \<Rightarrow> ('a, 'o) world" where
  "warn_if_few nlv k w = (if nlv < 2 * k then warn advisory w else w)"

definition from_numpy :: "'a list \<Rightarrow> 'a tensor" where
  "from_numpy x = \<lparr>data = x, device = Cpu, requires_grad = False\<rparr>"

text \<open>
  Modelled from the spec: \<open>utils.maybe_fp16\<close>, of \<open>hessian_eigenthings/utils.py\<close>, which
  is not among the sources.  The spec: ``if \<open>use_reduced_precision\<close> is set, casts to reduced
  precision''.  The source applies it to tensors (lines 70 and 74) and to a host array
  (line 84); \<open>maybe_fp16\<close> is the second, \<open>maybe_fp16_tensor\<close> the first.
\<close>

definition maybe_fp16 :: "('a \<Rightarrow> 'a) \<Rightarrow> 'a list \<Rightarrow> bool \<Rightarrow> 'a list" where
  "maybe_fp16 h x b = (if b then map h x else x)"

definition maybe_fp16_tensor :: "('a \<Rightarrow> 'a) \<Rightarrow> 'a tensor \<Rightarrow> bool \<Rightarrow> 'a tensor" where
  "maybe_fp16_tensor h t b = t\<lparr>data := maybe_fp16 h (data t) b\<rparr>"

definition cuda :: "'a tensor \<Rightarrow> 'a tensor" where
  "cuda t = t\<lparr>device := Cuda\<rparr>"

definition cpu :: "'a tensor \<Rightarrow> 'a tensor" where
  "cpu t = t\<lparr>device := Cpu\<rparr>"

text \<open>
  \<open>Tensor.numpy\<close> raises on a tensor that is not on the host and on one that requires grad.
\<close>

definition numpy :: "'a tensor \<Rightarrow> py_exn + 'a list" where
  "numpy t =
     (if device t = Cuda then Inl TypeError
      else if requires_grad t then Inl RuntimeError
      else Inr (data t))"

text \<open>Lines 69 to 72 of \<open>_scipy_apply\<close>: the host array as the operator takes it.\<close>

definition to_operator_form :: "('a \<Rightarrow> 'a) \<Rightarrow> bool \<Rightarrow> bool \<Rightarrow> 'a list \<Rightarrow> 'a tensor" where
  "to_operator_form h gpu b x =
     (let x1 = from_numpy x;
          x2 = maybe_fp16_tensor h x1 b
      in if gpu then cuda x2 else x2)"

text \<open>Lines 74 and 75 of \<open>_scipy_apply\<close>: the operator's answer as a host array.\<close>

definition to_host_form :: "('a \<Rightarrow> 'a) \<Rightarrow> bool \<Rightarrow> 'a tensor \<Rightarrow> py_exn + 'a list" where
  "to_host_form h b out = numpy (cpu (maybe_fp16_tensor h out b))"

text \<open>
  Lines 68 to 76: the callback given to scipy.  An exception of \<open>apply\<close> is not caught, nor is
  one of the conversion of line 75.
\<close>

definition scipy_apply ::
  "('a \<Rightarrow> 'a) \<Rightarrow> ('a, 'o) operator_class \<Rightarrow> bool \<Rightarrow> bool \<Rightarrow> 'a list \<Rightarrow> ('a, 'o) world
     \<Rightarrow> (py_exn + 'a list) \<times> ('a, 'o) world" where
  "scipy_apply h cls gpu b x w =
     (let (r, ob) = op_apply cls (operator w) (to_operator_form h gpu b x);
          w1 = w\<lparr>operator := ob, apply_calls := Suc (apply_calls w)\<rparr>
      in case r of
           Inl e \<Rightarrow> (Inl e, w1)
         | Inr out \<Rightarrow> (to_host_form h b out, w1))"

text \<open>
  Running code of scipy against a callback: the code goes on with what the callback returned
  or raised.
\<close>

primrec run ::
  "('a list \<Rightarrow> 'w \<Rightarrow> (py_exn + 'a list) \<times> 'w) \<Rightarrow> ('a, 'r) prog \<Rightarrow> 'w \<Rightarrow> (py_exn + 'r) \<times> 'w" where
  "run cb (Return r) w = (Inr r, w)"
| "run cb (Raise e) w = (Inl e, w)"
| "run cb (Matvec x k) w = (case cb x w of (r, w1) \<Rightarrow> run cb (k r) w1)"

text \<open>
  The run from one program and state comes to another program and state.
\<close>

inductive reaches ::
  "('a list \<Rightarrow> 'w \<Rightarrow> (py_exn + 'a list) \<times> 'w) \<Rightarrow> ('a, 'r) prog \<Rightarrow> 'w \<Rightarrow> ('a, 'r) prog \<Rightarrow> 'w \<Rightarrow> bool"
  for cb :: "'a list \<Rightarrow> 'w \<Rightarrow> (py_exn + 'a list) \<times> 'w" where
  here: "reaches cb q w q w"
| answered: "cb x w = (r, w1) \<Longrightarrow> reaches cb (k r) w1 q w2 \<Longrightarrow> reaches cb (Matvec x k) w q w2"

text \<open>\<open>np.random.rand(size)\<close>: \<open>size\<close> values of the global stream; a negative size raises.\<close>

definition np_random_rand ::
  "(nat \<Rightarrow> 'a) \<Rightarrow> int \<Rightarrow> ('a, 'o) world \<Rightarrow> (py_exn + 'a list) \<times> ('a, 'o) world" where
  "np_random_rand g sz w =
     (if sz < 0 then (Inl ValueError, w)
      else (Inr (map (\<lambda>i. g (np_random w + i)) [0..<nat sz]),
            w\<lparr>np_random := np_random w + nat sz\<rparr>))"

text \<open>Lines 79 to 84.\<close>

definition prepare_init_vec ::
  "'a externals \<Rightarrow> int \<Rightarrow> 'a py_vec option \<Rightarrow> bool \<Rightarrow> ('a, 'o) world
     \<Rightarrow> (py_exn + 'a list) \<times> ('a, 'o) world" where
  "prepare_init_vec X sz iv b w =
     (case (case iv of
              None \<Rightarrow> np_random_rand (rand X) sz w
            | Some (Tensor t) \<Rightarrow> (numpy (cpu t), w)
            | Some (Array a) \<Rightarrow> (Inr a, w)) of
        (Inl e, w1) \<Rightarrow> (Inl e, w1)
      | (Inr v, w1) \<Rightarrow> (Inr (maybe_fp16 (half X) v b), w1))"

text \<open>
  \<open>eigsh\<close> of scipy: the call is recorded, the iteration starts from \<open>v0\<close>, or from a vector
  of the solver's own random source when \<open>v0\<close> is \<open>None\<close>.
\<close>

definition eigsh_start ::
  "'a externals \<Rightarrow> 'a eigsh_args \<Rightarrow> ('a, 'o) world \<Rightarrow> 'a list \<times> ('a, 'o) world" where
  "eigsh_start X ea w =
     (let w1 = w\<lparr>eigsh_calls := eigsh_calls w @ [ea]\<rparr>
      in case e_v0 ea of
           Some v \<Rightarrow> (v, w1)
         | None \<Rightarrow> (start_vec X (solver_random w1) (fst (e_shape ea)),
                    w1\<lparr>solver_random := Suc (solver_random w1)\<rparr>))"

definition eigsh ::
  "'a externals \<Rightarrow> ('a list \<Rightarrow> ('a, 'o) world \<Rightarrow> (py_exn + 'a list) \<times> ('a, 'o) world)
     \<Rightarrow> 'a eigsh_args \<Rightarrow> ('a, 'o) world
     \<Rightarrow> (py_exn + 'a list \<times> 'a array2) \<times> ('a, 'o) world" where
  "eigsh X cb ea w = (case eigsh_start X ea w of (v, w1) \<Rightarrow> run cb (arpack X ea v) w1)"

text \<open>The transpose \<open>.T\<close> of a two-dimensional array.\<close>

definition T :: "'a array2 \<Rightarrow> 'a array2" where
  "T m = \<lparr>nrows = ncols m, ncols = nrows m,
          rows = map (\<lambda>j. map (\<lambda>r. r ! j) (rows m)) [0..<ncols m]\<rparr>"

definition wf_array2 :: "'a array2 \<Rightarrow> bool" where
  "wf_array2 m \<longleftrightarrow> length (rows m) = nrows m \<and> list_all (\<lambda>r. length r = ncols m) (rows m)"

text \<open>
  Lines 55 to 84 of \<open>lanczos\<close>: everything before the call of \<open>eigsh\<close>.  The result is the
  arguments that lines 85 to 93 pass to \<open>eigsh\<close> (no \<open>v0\<close> among them) and the value of the
  local variable \<open>init_vec\<close> after line 84.
\<close>

definition lanczos_prepare ::
  "'a externals \<Rightarrow> ('a, 'o) operator_class \<Rightarrow> 'a params \<Rightarrow> ('a, 'o) world
     \<Rightarrow> (py_exn + 'a eigsh_args \<times> 'a list) \<times> ('a, 'o) world" where
  "lanczos_prepare X cls p w =
     (case operator_size (op_size cls (operator w)) of
        Inl e \<Rightarrow> (Inl e, w)
      | Inr sz \<Rightarrow>
          (let shape = (sz, sz);
               nlv = derive_num_lanczos_vectors (num_lanczos_vectors p) (num_eigenthings p) sz;
               w1 = warn_if_few nlv (num_eigenthings p) w
           in case run (scipy_apply (half X) cls (use_gpu p) (fp16 p)) (linop_init X shape) w1 of
                (Inl e, w2) \<Rightarrow> (Inl e, w2)
              | (Inr u, w2) \<Rightarrow>
                  (case prepare_init_vec X sz (init_vec p) (fp16 p) w2 of
                     (Inl e, w3) \<Rightarrow> (Inl e, w3)
                   | (Inr iv, w3) \<Rightarrow>
                       (Inr (\<lparr>e_shape = shape, e_k = num_eigenthings p, e_which = which p,
                              e_maxiter = max_steps p, e_tol = tol p, e_ncv = nlv,
                              e_v0 = None, e_return_eigenvectors = True\<rparr>, iv), w3))))"

text \<open>The function \<open>lanczos\<close>, lines 11 to 94.\<close>

definition lanczos ::
  "'a externals \<Rightarrow> ('a, 'o) operator_class \<Rightarrow> 'a params \<Rightarrow> ('a, 'o) world
     \<Rightarrow> (py_exn + 'a list \<times> 'a array2) \<times> ('a, 'o) world" where
  "lanczos X cls p w =
     (case lanczos_prepare X cls p w of
        (Inl e, w1) \<Rightarrow> (Inl e, w1)
      | (Inr (ea, iv), w1) \<Rightarrow>
          (case eigsh X (scipy_apply (half X) cls (use_gpu p) (fp16 p)) ea w1 of
             (Inl e, w2) \<Rightarrow> (Inl e, w2)
           | (Inr (eigenvals, eigenvecs), w2) \<Rightarrow> (Inr (eigenvals, T eigenvecs), w2)))"

section \<open>A concrete instance\<close>

text \<open>
  An operator object with a declared size and a counter of the calls of its \<open>apply\<close>: the
  counting class doubles every entry, the failing class raises on every call, the flaky class
  answers its first call and raises from the second on, the overflow class raises an
  \<open>OverflowError\<close> on its first call and answers from the second on, the pure class is the
  identity and leaves the object as it is.
\<close>

record demo_op =
  d_size :: py_size
  d_calls :: nat

definition counting_class :: "(int, demo_op) operator_class" where
  "counting_class =
     \<lparr>op_size = d_size,
      op_apply = (\<lambda>ob t. (Inr (t\<lparr>data := map (\<lambda>v. 2 * v) (data t)\<rparr>),
                           ob\<lparr>d_calls := Suc (d_calls ob)\<rparr>))\<rparr>"

definition failing_class :: "(int, demo_op) operator_class" where
  "failing_class =
     \<lparr>op_size = d_size,
      op_apply = (\<lambda>ob t. (Inl (OtherError ''shape mismatch''),
                           ob\<lparr>d_calls := Suc (d_calls ob)\<rparr>))\<rparr>"

definition flaky_class :: "(int, demo_op) operator_class" where
  "flaky_class =
     \<lparr>op_size = d_size,
      op_apply = (\<lambda>ob t. (if d_calls ob = 0 then Inr t else Inl (OtherError ''device unavailable''),
                           ob\<lparr>d_calls := Suc (d_calls ob)\<rparr>))\<rparr>"

definition overflow_class :: "(int, demo_op) operator_class" where
  "overflow_class =
     \<lparr>op_size = d_size,
      op_apply = (\<lambda>ob t. (if d_calls ob = 0 then Inl OverflowError else Inr t,
                           ob\<lparr>d_calls := Suc (d_calls ob)\<rparr>))\<rparr>"

definition pure_class :: "(int, demo_op) operator_class" where
  "pure_class = \<lparr>op_size = d_size, op_apply = (\<lambda>ob t. (Inr t, ob))\<rparr>"

text \<open>
  A library instance over the integers: the 16-bit cast rounds down to an even number, the
  random stream counts, the constructor of the linear operator probes the callback once with
  zeros and catches an \<open>OverflowError\<close> of the probe (as \<open>LinearOperator._init_dtype\<close> of scipy
  does) and no other exception, and the solver asks for one product, catches nothing, and
  returns the eigenvalue 2 with its starting vector as the only column.
\<close>

definition demo_ext :: "int externals" where
  "demo_ext =
     \<lparr>half = (\<lambda>v. 2 * (v div 2)),
      rand = int,
      linop_init = (\<lambda>s. Matvec (replicate (nat (snd s)) 0)
                     (\<lambda>r. case r of
                            Inl e \<Rightarrow> if e = OverflowError then Return () else Raise e
                          | Inr y \<Rightarrow> Return ())),
      arpack = (\<lambda>ea v. Matvec v
                 (\<lambda>r. case r of
                        Inl e \<Rightarrow> Raise e
                      | Inr y \<Rightarrow> Return ([2], \<lparr>nrows = length v, ncols = 1,
                                               rows = map (\<lambda>a. [a]) v\<rparr>))),
      start_vec = (\<lambda>s n. map (\<lambda>i. int s + int i) [0..<nat n])\<rparr>"

definition demo_params :: "int params" where
  "demo_params =
     \<lparr>num_eigenthings = 1, which = ''LM'', max_steps = 20, tol = 1 / 1000000,
      num_lanczos_vectors = None, init_vec = None, use_gpu = False, fp16 = False\<rparr>"

definition demo_world :: "py_size \<Rightarrow> (int, demo_op) world" where
  "demo_world sz =
     \<lparr>operator = \<lparr>d_size = sz, d_calls = 0\<rparr>, apply_calls = 0, warnings = [],
      np_random = 0, solver_random = 0, eigsh_calls = []\<rparr>"

section \<open>Effects of the parts of a call\<close>

lemma scipy_apply_fields:
  "warnings (snd (scipy_apply h cls g b x w)) = warnings w"
  "np_random (snd (scipy_apply h cls g b x w)) = np_random w"
  "solver_random (snd (scipy_apply h cls g b x w)) = solver_random w"
  "eigsh_calls (snd (scipy_apply h cls g b x w)) = eigsh_calls w"
  by (simp_all add: scipy_apply_def Let_def split: prod.splits sum.splits)

lemma run_frame:
  assumes "\<And>x w. F (snd (cb x w)) = F w"
  shows "F (snd (run cb p w)) = F w"
proof (induction p arbitrary: w)
  case (Return r)
  show ?case by simp
next
  case (Raise e)
  show ?case by simp
next
  case (Matvec x k)
  obtain r w1 where c: "cb x w = (r, w1)" by (cases "cb x w")
  have f: "F w1 = F w" using assms [of x w] c by simp
  have "F (snd (run cb (k r) w1)) = F w1" by (rule Matvec.IH) simp
  with c f show ?case by simp
qed

lemma run_invariant:
  assumes "\<And>x w. P w \<Longrightarrow> P (snd (cb x w))" and "P w"
  shows "P (snd (run cb p w))"
  using assms(2)
proof (induction p arbitrary: w)
  case (Return r)
  then show ?case by simp
next
  case (Raise e)
  then show ?case by simp
next
  case (Matvec x k)
  obtain r w1 where c: "cb x w = (r, w1)" by (cases "cb x w")
  have f: "P w1" using assms(1) [OF Matvec.prems, of x] c by simp
  have "P (snd (run cb (k r) w1))" by (rule Matvec.IH) (simp_all add: f)
  with c show ?case by simp
qed

lemma run_scipy_apply_fields:
  "warnings (snd (run (scipy_apply h cls g b) p w)) = warnings w"
  "np_random (snd (run (scipy_apply h cls g b) p w)) = np_random w"
  "solver_random (snd (run (scipy_apply h cls g b) p w)) = solver_random w"
  "eigsh_calls (snd (run (scipy_apply h cls g b) p w)) = eigsh_calls w"
  by (rule run_frame, simp add: scipy_apply_fields)+

lemma prepare_init_vec_fields:
  "warnings (snd (prepare_init_vec X sz iv b w)) = warnings w"
  "solver_random (snd (prepare_init_vec X sz iv b w)) = solver_random w"
  "eigsh_calls (snd (prepare_init_vec X sz iv b w)) = eigsh_calls w"
  "operator (snd (prepare_init_vec X sz iv b w)) = operator w"
  "apply_calls (snd (prepare_init_vec X sz iv b w)) = apply_calls w"
  by (auto simp add: prepare_init_vec_def np_random_rand_def
        split: option.splits py_vec.splits prod.splits sum.splits)

lemma warn_if_few_fields:
  "warnings (warn_if_few nlv k w) = warnings w @ (if nlv < 2 * k then [advisory] else [])"
  "np_random (warn_if_few nlv k w) = np_random w"
  "solver_random (warn_if_few nlv k w) = solver_random w"
  "eigsh_calls (warn_if_few nlv k w) = eigsh_calls w"
  "operator (warn_if_few nlv k w) = operator w"
  "apply_calls (warn_if_few nlv k w) = apply_calls w"
  by (simp_all add: warn_if_few_def warn_def)

text \<open>The shape of a run of lines 55 to 84 once the size is known.\<close>

lemma lanczos_prepare_sized:
  assumes "operator_size (op_size cls (operator w)) = Inr n"
  shows "lanczos_prepare X cls p w =
     (let nlv = derive_num_lanczos_vectors (num_lanczos_vectors p) (num_eigenthings p) n;
          w1 = warn_if_few nlv (num_eigenthings p) w
      in case run (scipy_apply (half X) cls (use_gpu p) (fp16 p)) (linop_init X (n, n)) w1 of
           (Inl e, w2) \<Rightarrow> (Inl e, w2)
         | (Inr u, w2) \<Rightarrow>
             (case prepare_init_vec X n (init_vec p) (fp16 p) w2 of
                (Inl e, w3) \<Rightarrow> (Inl e, w3)
              | (Inr iv, w3) \<Rightarrow>
                  (Inr (\<lparr>e_shape = (n, n), e_k = num_eigenthings p, e_which = which p,
                         e_maxiter = max_steps p, e_tol = tol p, e_ncv = nlv,
                         e_v0 = None, e_return_eigenvectors = True\<rparr>, iv), w3)))"
  using assms by (simp add: lanczos_prepare_def Let_def)

lemma lanczos_prepare_warnings:
  assumes "operator_size (op_size cls (operator w)) = Inr n"
  shows "warnings (snd (lanczos_prepare X cls p w)) =
     warnings w @ (if derive_num_lanczos_vectors (num_lanczos_vectors p) (num_eigenthings p) n
                       < 2 * num_eigenthings p then [advisory] else [])"
proof -
  let ?nlv = "derive_num_lanczos_vectors (num_lanczos_vectors p) (num_eigenthings p) n"
  let ?w1 = "warn_if_few ?nlv (num_eigenthings p) w"
  let ?cb = "scipy_apply (half X) cls (use_gpu p) (fp16 p)"
  obtain r w2 where r: "run ?cb (linop_init X (n, n)) ?w1 = (r, w2)"
    by (cases "run ?cb (linop_init X (n, n)) ?w1")
  have w2: "warnings w2 = warnings ?w1"
    using run_scipy_apply_fields(1) [of "half X" cls "use_gpu p" "fp16 p" "linop_init X (n, n)" ?w1] r
    by simp
  obtain r3 w3 where r3: "prepare_init_vec X n (init_vec p) (fp16 p) w2 = (r3, w3)"
    by (cases "prepare_init_vec X n (init_vec p) (fp16 p) w2")
  have w3: "warnings w3 = warnings w2"
    using prepare_init_vec_fields(1) [of X n "init_vec p" "fp16 p" w2] r3 by simp
  have "warnings (snd (lanczos_prepare X cls p w)) = warnings ?w1"
    using r r3 w2 w3
    by (simp add: lanczos_prepare_sized [OF assms] Let_def split: sum.splits)
  then show ?thesis by (simp add: warn_if_few_fields)
qed

lemma lanczos_prepare_eigsh_calls:
  "eigsh_calls (snd (lanczos_prepare X cls p w)) = eigsh_calls w"
proof (cases "operator_size (op_size cls (operator w))")
  case (Inl e)
  then show ?thesis by (simp add: lanczos_prepare_def)
next
  case (Inr n)
  let ?nlv = "derive_num_lanczos_vectors (num_lanczos_vectors p) (num_eigenthings p) n"
  let ?w1 = "warn_if_few ?nlv (num_eigenthings p) w"
  let ?cb = "scipy_apply (half X) cls (use_gpu p) (fp16 p)"
  obtain r w2 where r: "run ?cb (linop_init X (n, n)) ?w1 = (r, w2)"
    by (cases "run ?cb (linop_init X (n, n)) ?w1")
  have w2: "eigsh_calls w2 = eigsh_calls ?w1"
    using run_scipy_apply_fields(4) [of "half X" cls "use_gpu p" "fp16 p" "linop_init X (n, n)" ?w1] r
    by simp
  obtain r3 w3 where r3: "prepare_init_vec X n (init_vec p) (fp16 p) w2 = (r3, w3)"
    by (cases "prepare_init_vec X n (init_vec p) (fp16 p) w2")
  have w3: "eigsh_calls w3 = eigsh_calls w2"
    using prepare_init_vec_fields(3) [of X n "init_vec p" "fp16 p" w2] r3 by simp
  have "eigsh_calls (snd (lanczos_prepare X cls p w)) = eigsh_calls ?w1"
    using r r3 w2 w3
    by (simp add: lanczos_prepare_sized [OF Inr] Let_def split: sum.splits)
  then show ?thesis by (simp add: warn_if_few_fields)
qed

lemma eigsh_fields:
  "warnings (snd (eigsh X (scipy_apply h cls g b) ea w)) = warnings w"
  "np_random (snd (eigsh X (scipy_apply h cls g b) ea w)) = np_random w"
  "eigsh_calls (snd (eigsh X (scipy_apply h cls g b) ea w)) = eigsh_calls w @ [ea]"
  by (simp_all add: eigsh_def eigsh_start_def Let_def run_scipy_apply_fields
        split: option.splits prod.splits)

lemma lanczos_after_prepare:
  assumes "lanczos_prepare X cls p w = (Inr (ea, iv), w1)"
  shows "snd (lanczos X cls p w) = snd (eigsh X (scipy_apply (half X) cls (use_gpu p) (fp16 p)) ea w1)"
  using assms by (simp add: lanczos_def split: prod.splits sum.splits)

lemma lanczos_prepare_failed:
  assumes "lanczos_prepare X cls p w = (Inl e, w1)"
  shows "lanczos X cls p w = (Inl e, w1)"
  using assms by (simp add: lanczos_def)

lemmas demo_defs = lanczos_def lanczos_prepare_def demo_ext_def counting_class_def failing_class_def flaky_class_def overflow_class_def pure_class_def
   demo_params_def demo_world_def
   derive_num_lanczos_vectors_def warn_if_few_def warn_def advisory_def scipy_apply_def to_operator_form_def to_host_form_def
   from_numpy_def maybe_fp16_tensor_def maybe_fp16_def cpu_def cuda_def numpy_def prepare_init_vec_def np_random_rand_def
   eigsh_def eigsh_start_def T_def wf_array2_def

lemma lanczos_warnings:
  "warnings (snd (lanczos X cls p w)) = warnings (snd (lanczos_prepare X cls p w))"
proof (cases "lanczos_prepare X cls p w")
  case (Pair r w1)
  show ?thesis
  proof (cases r)
    case (Inl e)
    with Pair show ?thesis by (simp add: lanczos_def)
  next
    case (Inr a)
    obtain ea iv where a: "a = (ea, iv)" by (cases a)
    from Pair Inr a have pr: "lanczos_prepare X cls p w = (Inr (ea, iv), w1)" by simp
    show ?thesis by (simp add: lanczos_after_prepare [OF pr] eigsh_fields pr)
  qed
qed

lemma numpy_cpu:
  "numpy (cpu t) = (if requires_grad t then Inl RuntimeError else Inr (data t))"
  by (simp add: numpy_def cpu_def)

lemma lanczos_prepare_reaches_solver:
  assumes sz: "operator_size (op_size cls (operator w)) = Inr n"
    and nlv: "nlv = derive_num_lanczos_vectors (num_lanczos_vectors p) (num_eigenthings p) n"
    and ctor: "fst (run (scipy_apply (half X) cls (use_gpu p) (fp16 p)) (linop_init X (n, n))
                  (warn_if_few nlv (num_eigenthings p) w)) = Inr u"
    and iv: "init_vec p = None \<longrightarrow> 0 \<le> n"
    and tn: "\<forall>t. init_vec p = Some (Tensor t) \<longrightarrow> \<not> requires_grad t"
  shows "\<exists>iv w1. lanczos_prepare X cls p w =
           (Inr (\<lparr>e_shape = (n, n), e_k = num_eigenthings p, e_which = which p,
                  e_maxiter = max_steps p, e_tol = tol p, e_ncv = nlv,
                  e_v0 = None, e_return_eigenvectors = True\<rparr>, iv), w1)"
proof -
  let ?cb = "scipy_apply (half X) cls (use_gpu p) (fp16 p)"
  let ?w1 = "warn_if_few nlv (num_eigenthings p) w"
  obtain w2 where r: "run ?cb (linop_init X (n, n)) ?w1 = (Inr u, w2)"
    using ctor by (cases "run ?cb (linop_init X (n, n)) ?w1") simp
  have "\<exists>v w3. prepare_init_vec X n (init_vec p) (fp16 p) w2 = (Inr v, w3)"
    using iv tn by (cases "init_vec p")
      (auto simp add: prepare_init_vec_def np_random_rand_def numpy_cpu split: py_vec.splits)
  then obtain v w3 where i: "prepare_init_vec X n (init_vec p) (fp16 p) w2 = (Inr v, w3)" by blast
  show ?thesis
    using r i nlv by (simp add: lanczos_prepare_sized [OF sz] Let_def)
qed

lemma T_shape:
  "nrows (T m) = ncols m" "ncols (T m) = nrows m" "length (rows (T m)) = ncols m"
  by (simp_all add: T_def)

lemma T_row:
  assumes "i < ncols m"
  shows "rows (T m) ! i = map (\<lambda>r. r ! i) (rows m)"
  using assms by (simp add: T_def)

lemma T_wf:
  assumes "wf_array2 m"
  shows "wf_array2 (T m)"
  using assms by (simp add: wf_array2_def T_def list_all_iff)

lemma T_entry:
  assumes "wf_array2 m" and "i < ncols m" and "j < nrows m"
  shows "rows (T m) ! i ! j = rows m ! j ! i"
  using assms by (simp add: wf_array2_def T_def)

text \<open>Transposing twice gives the array back.\<close>

lemma T_involution:
  assumes "wf_array2 m"
  shows "T (T m) = m"
proof -
  have len: "length (rows m) = nrows m" using assms by (simp add: wf_array2_def)
  have row: "\<And>j. j < nrows m \<Longrightarrow> length (rows m ! j) = ncols m"
    using assms by (simp add: wf_array2_def list_all_length)
  have "rows (T (T m)) = rows m"
  proof (rule nth_equalityI)
    show "length (rows (T (T m))) = length (rows m)" by (simp add: T_def len)
  next
    fix j assume "j < length (rows (T (T m)))"
    then have j: "j < nrows m" by (simp add: T_def)
    have "rows (T (T m)) ! j = map (\<lambda>i. rows m ! j ! i) [0..<ncols m]"
      using j len by (simp add: T_def)
    also have "\<dots> = rows m ! j"
      using row [OF j] by (metis map_nth)
    finally show "rows (T (T m)) ! j = rows m ! j" .
  qed
  then show ?thesis by (simp add: T_def)
qed

lemma scipy_apply_raises:
  assumes "op_apply cls (operator w) (to_operator_form h gpu b x) = (Inl e, ob)"
  shows "scipy_apply h cls gpu b x w = (Inl e, w\<lparr>operator := ob, apply_calls := Suc (apply_calls w)\<rparr>)"
  using assms by (simp add: scipy_apply_def)

lemma run_aborts_at:
  assumes "reaches cb q0 w0 q w" and "q = Matvec x k" and "cb x w = (Inl e, w')"
    and "k (Inl e) = Raise e"
  shows "run cb q0 w0 = (Inl e, w')"
  using assms
proof (induction rule: reaches.induct)
  case (here q w)
  then show ?case by simp
next
  case (answered x1 w r w1 k1 q w2)
  then show ?case by simp
qed

lemma run_aborts:
  assumes "reaches cb q0 w0 (Matvec x k) w" and "cb x w = (Inl e, w')"
    and "k (Inl e) = Raise e"
  shows "run cb q0 w0 = (Inl e, w')"
  using run_aborts_at [of cb q0 w0 "Matvec x k" w x k e w'] assms by simp

lemma scipy_apply_operator:
  assumes "\<And>ob x. P ob \<Longrightarrow> P (snd (op_apply cls ob x))" and "P (operator w)"
  shows "P (operator (snd (scipy_apply h cls g b x w)))"
proof -
  obtain r ob where a: "op_apply cls (operator w) (to_operator_form h g b x) = (r, ob)"
    by (cases "op_apply cls (operator w) (to_operator_form h g b x)")
  have "P ob" using assms(1) [OF assms(2), of "to_operator_form h g b x"] a by simp
  then show ?thesis using a by (simp add: scipy_apply_def Let_def split: sum.splits)
qed

lemma run_operator:
  assumes "\<And>ob x. P ob \<Longrightarrow> P (snd (op_apply cls ob x))" and "P (operator w)"
  shows "P (operator (snd (run (scipy_apply h cls g b) q w)))"
  by (rule run_invariant [where P = "\<lambda>w. P (operator w)"])
     (simp_all add: scipy_apply_operator assms)

lemma lanczos_prepare_operator:
  assumes inv: "\<And>ob x. P ob \<Longrightarrow> P (snd (op_apply cls ob x))" and init: "P (operator w)"
  shows "P (operator (snd (lanczos_prepare X cls p w)))"
proof (cases "operator_size (op_size cls (operator w))")
  case (Inl e)
  then show ?thesis using init by (simp add: lanczos_prepare_def)
next
  case (Inr n)
  let ?nlv = "derive_num_lanczos_vectors (num_lanczos_vectors p) (num_eigenthings p) n"
  let ?w1 = "warn_if_few ?nlv (num_eigenthings p) w"
  let ?cb = "scipy_apply (half X) cls (use_gpu p) (fp16 p)"
  obtain r w2 where r: "run ?cb (linop_init X (n, n)) ?w1 = (r, w2)"
    by (cases "run ?cb (linop_init X (n, n)) ?w1")
  have "P (operator ?w1)" using init by (simp add: warn_if_few_fields)
  then have w2: "P (operator w2)"
    using run_operator [of P cls ?w1 "half X" "use_gpu p" "fp16 p" "linop_init X (n, n)"] inv r
    by simp
  obtain r3 w3 where r3: "prepare_init_vec X n (init_vec p) (fp16 p) w2 = (r3, w3)"
    by (cases "prepare_init_vec X n (init_vec p) (fp16 p) w2")
  have w3: "operator w3 = operator w2"
    using prepare_init_vec_fields(4) [of X n "init_vec p" "fp16 p" w2] r3 by simp
  show ?thesis
    using r r3 w2 w3
    by (simp add: lanczos_prepare_sized [OF Inr] Let_def split: sum.splits)
qed

lemma eigsh_operator:
  assumes inv: "\<And>ob x. P ob \<Longrightarrow> P (snd (op_apply cls ob x))" and init: "P (operator w)"
  shows "P (operator (snd (eigsh X (scipy_apply h cls g b) ea w)))"
proof -
  obtain v w1 where s: "eigsh_start X ea w = (v, w1)" by (cases "eigsh_start X ea w")
  then have "operator w1 = operator w"
    by (auto simp add: eigsh_start_def Let_def split: option.splits)
  then have "P (operator (snd (run (scipy_apply h cls g b) (arpack X ea v) w1)))"
    using run_operator [of P cls w1 h g b "arpack X ea v"] inv init by simp
  then show ?thesis using s by (simp add: eigsh_def)
qed

lemma lanczos_operator:
  assumes inv: "\<And>ob x. P ob \<Longrightarrow> P (snd (op_apply cls ob x))" and init: "P (operator w)"
  shows "P (operator (snd (lanczos X cls p w)))"
proof (cases "lanczos_prepare X cls p w")
  case (Pair r w1)
  have w1: "P (operator w1)"
    using lanczos_prepare_operator [of P cls w X p] inv init Pair by simp
  show ?thesis
  proof (cases r)
    case (Inl e)
    with Pair w1 show ?thesis by (simp add: lanczos_def)
  next
    case (Inr a)
    obtain ea iv where a: "a = (ea, iv)" by (cases a)
    from Pair Inr a have pr: "lanczos_prepare X cls p w = (Inr (ea, iv), w1)" by simp
    show ?thesis
      using eigsh_operator [of P cls w1 X "half X" "use_gpu p" "fp16 p" ea] inv w1
      by (simp add: lanczos_after_prepare [OF pr])
  qed
qed

lemma prepare_init_vec_supplied:
  "prepare_init_vec X sz (Some (Array a)) b w = (Inr (maybe_fp16 (half X) a b), w)"
  by (simp add: prepare_init_vec_def)

text \<open>The result of a call and the state after it do not depend on which array is supplied.\<close>

lemma lanczos_ignores_init_vec:
  "lanczos X cls (p\<lparr>init_vec := Some (Array a)\<rparr>) w
     = lanczos X cls (p\<lparr>init_vec := Some (Array b)\<rparr>) w"
  by (simp add: lanczos_def lanczos_prepare_def Let_def prepare_init_vec_supplied
        split: sum.splits prod.splits)

text \<open>With a supplied vector the call takes nothing from numpy's random stream.\<close>

lemma lanczos_supplied_init_vec_no_draw:
  assumes "init_vec p = Some a"
  shows "np_random (snd (lanczos X cls p w)) = np_random w"
proof -
  have pi: "\<And>sz w2. np_random (snd (prepare_init_vec X sz (init_vec p) (fp16 p) w2)) = np_random w2"
    using assms by (auto simp add: prepare_init_vec_def split: py_vec.splits sum.splits)
  have pr: "np_random (snd (lanczos_prepare X cls p w)) = np_random w"
  proof (cases "operator_size (op_size cls (operator w))")
    case (Inl e)
    then show ?thesis by (simp add: lanczos_prepare_def)
  next
    case (Inr n)
    let ?nlv = "derive_num_lanczos_vectors (num_lanczos_vectors p) (num_eigenthings p) n"
    let ?w1 = "warn_if_few ?nlv (num_eigenthings p) w"
    let ?cb = "scipy_apply (half X) cls (use_gpu p) (fp16 p)"
    obtain r w2 where r: "run ?cb (linop_init X (n, n)) ?w1 = (r, w2)"
      by (cases "run ?cb (linop_init X (n, n)) ?w1")
    have w2: "np_random w2 = np_random w"
      using run_scipy_apply_fields(2) [of "half X" cls "use_gpu p" "fp16 p" "linop_init X (n, n)" ?w1] r
      by (simp add: warn_if_few_fields)
    obtain r3 w3 where r3: "prepare_init_vec X n (init_vec p) (fp16 p) w2 = (r3, w3)"
      by (cases "prepare_init_vec X n (init_vec p) (fp16 p) w2")
    have w3: "np_random w3 = np_random w2" using pi [of n w2] r3 by simp
    show ?thesis
      using r r3 w2 w3
      by (simp add: lanczos_prepare_sized [OF Inr] Let_def split: sum.splits)
  qed
  show ?thesis
  proof (cases "lanczos_prepare X cls p w")
    case (Pair r w1)
    show ?thesis
    proof (cases r)
      case (Inl e)
      with Pair pr show ?thesis by (simp add: lanczos_def)
    next
      case (Inr c)
      obtain ea iv where c: "c = (ea, iv)" by (cases c)
      from Pair Inr c have p1: "lanczos_prepare X cls p w = (Inr (ea, iv), w1)" by simp
      show ?thesis using pr p1 by (simp add: lanczos_after_prepare [OF p1] eigsh_fields)
    qed
  qed
qed

lemma scipy_apply_solver_random:
  "scipy_apply h cls g b x (w\<lparr>solver_random := s\<rparr>) =
     (fst (scipy_apply h cls g b x w), (snd (scipy_apply h cls g b x w))\<lparr>solver_random := s\<rparr>)"
  by (simp add: scipy_apply_def Let_def split: prod.splits sum.splits)

lemma run_solver_random:
  "run (scipy_apply h cls g b) q (w\<lparr>solver_random := s\<rparr>) =
     (fst (run (scipy_apply h cls g b) q w), (snd (run (scipy_apply h cls g b) q w))\<lparr>solver_random := s\<rparr>)"
proof (induction q arbitrary: w)
  case (Return r)
  show ?case by simp
next
  case (Raise e)
  show ?case by simp
next
  case (Matvec x k)
  obtain r w1 where c: "scipy_apply h cls g b x w = (r, w1)"
    by (cases "scipy_apply h cls g b x w")
  then have c': "scipy_apply h cls g b x (w\<lparr>solver_random := s\<rparr>) = (r, w1\<lparr>solver_random := s\<rparr>)"
    by (simp add: scipy_apply_solver_random)
  have "run (scipy_apply h cls g b) (k r) (w1\<lparr>solver_random := s\<rparr>) =
          (fst (run (scipy_apply h cls g b) (k r) w1),
           (snd (run (scipy_apply h cls g b) (k r) w1))\<lparr>solver_random := s\<rparr>)"
    by (rule Matvec.IH) simp
  with c c' show ?case by simp
qed

text \<open>With a starting vector, the result of eigsh does not depend on the solver's random source.\<close>

lemma eigsh_with_v0:
  assumes "e_v0 ea = Some v"
  shows "fst (eigsh X (scipy_apply h cls g b) ea (w\<lparr>solver_random := s\<rparr>))
       = fst (eigsh X (scipy_apply h cls g b) ea w)"
proof -
  let ?w1 = "w\<lparr>eigsh_calls := eigsh_calls w @ [ea]\<rparr>"
  have a: "eigsh_start X ea (w\<lparr>solver_random := s\<rparr>) = (v, ?w1\<lparr>solver_random := s\<rparr>)"
    using assms by (simp add: eigsh_start_def)
  have b: "eigsh_start X ea w = (v, ?w1)"
    using assms by (simp add: eigsh_start_def)
  show ?thesis
    unfolding eigsh_def a b by (simp only: prod.case run_solver_random fst_conv)
qed

section \<open>The claims\<close>

text \<open>
  C1.  When \<open>operator.size\<close> is neither an int nor a shape with a first element, the subscript
  of line 58 raises (a \<open>TypeError\<close> for an object that cannot be subscripted, an \<open>IndexError\<close>
  for an empty shape: the condition the spec calls InvalidOperatorShape), and the call ends
  there in the state it started in: \<open>apply\<close> has not been called, no warning has been
  emitted, no random value drawn, and neither the linear operator nor \<open>eigsh\<close> has been
  reached.
\<close>

theorem lanczos_invalid_size:
  assumes "\<forall>n. op_size cls (operator w) \<noteq> SizeInt n"
    and "\<forall>n ns. op_size cls (operator w) \<noteq> SizeShape (n # ns)"
  shows "\<exists>e. (e = TypeError \<or> e = IndexError) \<and> lanczos X cls p w = (Inl e, w)
           \<and> apply_calls (snd (lanczos X cls p w)) = apply_calls w
           \<and> eigsh_calls (snd (lanczos X cls p w)) = eigsh_calls w"
proof (cases "op_size cls (operator w)")
  case (SizeInt n)
  with assms(1) show ?thesis by simp
next
  case (SizeShape ns)
  with assms(2) have "ns = []" by (cases ns) simp_all
  with SizeShape show ?thesis by (simp add: lanczos_def lanczos_prepare_def)
next
  case SizeOther
  then show ?thesis by (simp add: lanczos_def lanczos_prepare_def)
qed

theorem lanczos_invalid_size_witness:
  "\<exists>e. (e = TypeError \<or> e = IndexError)
       \<and> lanczos demo_ext counting_class demo_params (demo_world SizeOther)
           = (Inl e, demo_world SizeOther)
       \<and> apply_calls (snd (lanczos demo_ext counting_class demo_params (demo_world SizeOther))) = 0
       \<and> eigsh_calls (snd (lanczos demo_ext counting_class demo_params (demo_world SizeOther))) = []"
  using lanczos_invalid_size [of counting_class "demo_world SizeOther" demo_ext demo_params]
  by (simp add: counting_class_def demo_world_def)

text \<open>
  C2.  When the call of \<open>eigsh\<close> in line 85 returns \<open>k\<close> eigenvalues and a well-formed
  \<open>n\<close> by \<open>k\<close> matrix, \<open>lanczos\<close> returns the eigenvalues as they are and the transposed
  matrix: \<open>k\<close> rows of length \<open>n\<close>, row \<open>i\<close> being column \<open>i\<close> of the solver's matrix, the
  eigenvector of eigenvalue \<open>i\<close>.
\<close>

theorem lanczos_returns_transposed:
  assumes pr: "lanczos_prepare X cls p w = (Inr (ea, iv), w1)"
    and so: "eigsh X (scipy_apply (half X) cls (use_gpu p) (fp16 p)) ea w1 = (Inr (vals, vecs), w2)"
    and vals: "length vals = k"
    and wf: "wf_array2 vecs" and nr: "nrows vecs = n" and nc: "ncols vecs = k"
  shows "lanczos X cls p w = (Inr (vals, T vecs), w2)
       \<and> wf_array2 (T vecs) \<and> nrows (T vecs) = k \<and> ncols (T vecs) = n
       \<and> length (rows (T vecs)) = length vals
       \<and> (\<forall>i<k. length (rows (T vecs) ! i) = n
                 \<and> rows (T vecs) ! i = map (\<lambda>r. r ! i) (rows vecs))
       \<and> (\<forall>i<k. \<forall>j<n. rows (T vecs) ! i ! j = rows vecs ! j ! i)"
proof -
  have a: "lanczos X cls p w = (Inr (vals, T vecs), w2)"
    using pr so by (simp add: lanczos_def)
  have len: "length (rows vecs) = n" using wf nr by (simp add: wf_array2_def)
  have b: "\<forall>i<k. length (rows (T vecs) ! i) = n
                 \<and> rows (T vecs) ! i = map (\<lambda>r. r ! i) (rows vecs)"
    using nc len by (simp add: T_row)
  have c: "\<forall>i<k. \<forall>j<n. rows (T vecs) ! i ! j = rows vecs ! j ! i"
    using T_entry [OF wf] nc nr by simp
  show ?thesis
    using a b c T_wf [OF wf] vals nr nc by (simp only: T_shape)
qed

theorem lanczos_returns_transposed_witness:
  "lanczos demo_ext counting_class demo_params (demo_world (SizeInt 3)) =
     (Inr ([2], T \<lparr>nrows = 3, ncols = 1, rows = [[0], [1], [2]]\<rparr>),
      \<lparr>operator = \<lparr>d_size = SizeInt 3, d_calls = 2\<rparr>, apply_calls = 2, warnings = [],
       np_random = 3, solver_random = 1,
       eigsh_calls = [\<lparr>e_shape = (3, 3), e_k = 1, e_which = ''LM'', e_maxiter = 20,
                       e_tol = 1 / 1000000, e_ncv = 2, e_v0 = None,
                       e_return_eigenvectors = True\<rparr>]\<rparr>)
   \<and> rows (T \<lparr>nrows = 3, ncols = 1, rows = [[0], [1], [2::int]]\<rparr>) = [[0, 1, 2]]
   \<and> nrows (T \<lparr>nrows = 3, ncols = 1, rows = [[0], [1], [2::int]]\<rparr>) = 1
   \<and> ncols (T \<lparr>nrows = 3, ncols = 1, rows = [[0], [1], [2::int]]\<rparr>) = 3"
proof -
  let ?ea = "\<lparr>e_shape = (3, 3), e_k = 1, e_which = ''LM'', e_maxiter = 20, e_tol = 1 / 1000000,
         e_ncv = 2, e_v0 = None, e_return_eigenvectors = True\<rparr> :: int eigsh_args"
  let ?w1 = "\<lparr>operator = \<lparr>d_size = SizeInt 3, d_calls = 1\<rparr>, apply_calls = 1,
       warnings = [], np_random = 3, solver_random = 0, eigsh_calls = []\<rparr> :: (int, demo_op) world"
  let ?m = "\<lparr>nrows = 3, ncols = 1, rows = [[0], [1], [2::int]]\<rparr>"
  have pr: "lanczos_prepare demo_ext counting_class demo_params (demo_world (SizeInt 3)) =
     (Inr (?ea, [0, 1, 2]), ?w1)"
    by (simp add: demo_defs upt_rec)
  have so: "eigsh demo_ext (scipy_apply (half demo_ext) counting_class (use_gpu demo_params)
              (fp16 demo_params)) ?ea ?w1 =
     (Inr ([2], ?m),
      \<lparr>operator = \<lparr>d_size = SizeInt 3, d_calls = 2\<rparr>, apply_calls = 2, warnings = [],
       np_random = 3, solver_random = 1, eigsh_calls = [?ea]\<rparr>)"
    by (simp add: demo_defs upt_rec)
  have vals: "length [2::int] = 1" by simp
  have wf: "wf_array2 ?m" by (simp add: wf_array2_def)
  have nr: "nrows ?m = 3" and nc: "ncols ?m = 1" by simp_all
  show ?thesis
    using lanczos_returns_transposed [OF pr so vals wf nr nc]
    by (simp add: T_def)
qed

text \<open>
  C3.  When \<open>num_lanczos_vectors\<close> is \<open>None\<close> and the call comes to the solver, \<open>eigsh\<close> is
  called with \<open>ncv\<close> equal to the minimum of \<open>2 * num_eigenthings\<close> and \<open>size - 1\<close>.
\<close>

theorem lanczos_default_num_lanczos_vectors:
  assumes "num_lanczos_vectors p = None"
    and "operator_size (op_size cls (operator w)) = Inr n"
    and "lanczos_prepare X cls p w = (Inr (ea, iv), w1)"
  shows "e_ncv ea = min (2 * num_eigenthings p) (n - 1)
       \<and> eigsh_calls (snd (lanczos X cls p w)) = eigsh_calls w @ [ea]"
proof -
  have "e_ncv ea = derive_num_lanczos_vectors (num_lanczos_vectors p) (num_eigenthings p) n"
    using assms(3)
    by (auto simp add: lanczos_prepare_sized [OF assms(2)] Let_def split: prod.splits sum.splits)
  then have a: "e_ncv ea = min (2 * num_eigenthings p) (n - 1)"
    using assms(1) by (simp add: derive_num_lanczos_vectors_def)
  have "eigsh_calls w1 = eigsh_calls w"
    using lanczos_prepare_eigsh_calls [of X cls p w] assms(3) by simp
  then have "eigsh_calls (snd (lanczos X cls p w)) = eigsh_calls w @ [ea]"
    by (simp add: lanczos_after_prepare [OF assms(3)] eigsh_fields)
  with a show ?thesis by simp
qed

theorem lanczos_default_num_lanczos_vectors_witness:
  "e_ncv \<lparr>e_shape = (3, 3), e_k = 1, e_which = ''LM'', e_maxiter = 20, e_tol = 1 / 1000000,
         e_ncv = 2, e_v0 = None, e_return_eigenvectors = True\<rparr> = min (2 * 1) (3 - 1)
   \<and> eigsh_calls (snd (lanczos demo_ext counting_class demo_params (demo_world (SizeInt 3)))) =
       [\<lparr>e_shape = (3, 3), e_k = 1, e_which = ''LM'', e_maxiter = 20, e_tol = 1 / 1000000,
         e_ncv = 2, e_v0 = None, e_return_eigenvectors = True\<rparr>]"
proof -
  have pr: "lanczos_prepare demo_ext counting_class demo_params (demo_world (SizeInt 3)) =
     (Inr (\<lparr>e_shape = (3, 3), e_k = 1, e_which = ''LM'', e_maxiter = 20, e_tol = 1 / 1000000,
         e_ncv = 2, e_v0 = None, e_return_eigenvectors = True\<rparr>, [0, 1, 2]),
      \<lparr>operator = \<lparr>d_size = SizeInt 3, d_calls = 1\<rparr>, apply_calls = 1,
       warnings = [], np_random = 3, solver_random = 0, eigsh_calls = []\<rparr>)"
    by (simp add: demo_defs upt_rec)
  have n: "num_lanczos_vectors demo_params = None" by (simp add: demo_params_def)
  have s: "operator_size (op_size counting_class (operator (demo_world (SizeInt 3)))) = Inr 3"
    by (simp add: counting_class_def demo_world_def)
  show ?thesis
    using lanczos_default_num_lanczos_vectors [OF n s pr]
    by (simp add: demo_params_def demo_world_def)
qed

text \<open>
  C4.  For a call whose operator size is determined, the advisory is emitted exactly when the
  supplied or derived \<open>num_lanczos_vectors\<close> is strictly less than \<open>2 * num_eigenthings\<close>
  (not when they are equal), and it is the only warning of the call.  The warning does not end
  the call: when the construction of the linear operator returns and the initial vector can
  be made (a random vector needs a size that is not negative, a tensor can be turned into an
  array only if it does not require grad), \<open>eigsh\<close> is called once, for
  \<open>num_eigenthings\<close> eigenpairs and with that count as \<open>ncv\<close>, whether the advisory was
  emitted or not.
\<close>

theorem lanczos_advisory:
  assumes sz: "operator_size (op_size cls (operator w)) = Inr n"
    and nlv: "nlv = derive_num_lanczos_vectors (num_lanczos_vectors p) (num_eigenthings p) n"
  shows "warnings (snd (lanczos X cls p w)) =
           warnings w @ (if nlv < 2 * num_eigenthings p then [advisory] else [])
       \<and> (fst (run (scipy_apply (half X) cls (use_gpu p) (fp16 p)) (linop_init X (n, n))
                  (warn_if_few nlv (num_eigenthings p) w)) = Inr ()
            \<and> (init_vec p = None \<longrightarrow> 0 \<le> n)
            \<and> (\<forall>t. init_vec p = Some (Tensor t) \<longrightarrow> \<not> requires_grad t)
          \<longrightarrow> eigsh_calls (snd (lanczos X cls p w)) =
                eigsh_calls w @
                  [\<lparr>e_shape = (n, n), e_k = num_eigenthings p, e_which = which p,
                    e_maxiter = max_steps p, e_tol = tol p, e_ncv = nlv,
                    e_v0 = None, e_return_eigenvectors = True\<rparr>])"
proof (intro conjI impI)
  show "warnings (snd (lanczos X cls p w)) =
          warnings w @ (if nlv < 2 * num_eigenthings p then [advisory] else [])"
    by (simp add: lanczos_warnings lanczos_prepare_warnings [OF sz] nlv)
next
  let ?ea = "\<lparr>e_shape = (n, n), e_k = num_eigenthings p, e_which = which p,
               e_maxiter = max_steps p, e_tol = tol p, e_ncv = nlv,
               e_v0 = None, e_return_eigenvectors = True\<rparr>"
  assume h: "fst (run (scipy_apply (half X) cls (use_gpu p) (fp16 p)) (linop_init X (n, n))
                  (warn_if_few nlv (num_eigenthings p) w)) = Inr ()
            \<and> (init_vec p = None \<longrightarrow> 0 \<le> n)
            \<and> (\<forall>t. init_vec p = Some (Tensor t) \<longrightarrow> \<not> requires_grad t)"
  then have "\<exists>iv w1. lanczos_prepare X cls p w = (Inr (?ea, iv), w1)"
    using lanczos_prepare_reaches_solver [OF sz nlv, of X "()"] by simp
  then obtain iv w1 where pr: "lanczos_prepare X cls p w = (Inr (?ea, iv), w1)" by blast
  have "eigsh_calls w1 = eigsh_calls w"
    using lanczos_prepare_eigsh_calls [of X cls p w] pr by simp
  then show "eigsh_calls (snd (lanczos X cls p w)) = eigsh_calls w @ [?ea]"
    by (simp add: lanczos_after_prepare [OF pr] eigsh_fields)
qed

theorem lanczos_advisory_witness:
  "warnings (snd (lanczos demo_ext counting_class (demo_params\<lparr>num_lanczos_vectors := Some 1\<rparr>)
                    (demo_world (SizeInt 3)))) = [advisory]
   \<and> eigsh_calls (snd (lanczos demo_ext counting_class (demo_params\<lparr>num_lanczos_vectors := Some 1\<rparr>)
                    (demo_world (SizeInt 3)))) =
       [\<lparr>e_shape = (3, 3), e_k = 1, e_which = ''LM'', e_maxiter = 20, e_tol = 1 / 1000000,
         e_ncv = 1, e_v0 = None, e_return_eigenvectors = True\<rparr>]"
  using lanczos_advisory [of counting_class "demo_world (SizeInt 3)" 3 1
           "demo_params\<lparr>num_lanczos_vectors := Some 1\<rparr>" demo_ext]
  by (simp add: demo_defs)

text \<open>
  C5.  The way of a host array to the operator (lines 69 to 72) and back (lines 74 and 75),
  with \<open>maybe_fp16\<close> as the spec describes it.  The way back does not raise.  With \<open>fp16\<close>
  false the array comes back as it was, on either device.  With \<open>fp16\<close> true every entry comes back cast to 16 bits (twice:
  once on each way), which is the 16-bit cast of the entry when casting a 16-bit value
  changes nothing; the array comes back unchanged exactly when the casts leave each of its
  entries as it is.
\<close>

theorem round_trip:
  "to_host_form h False (to_operator_form h gpu False x) = Inr x
   \<and> to_host_form h True (to_operator_form h gpu True x) = Inr (map (h \<circ> h) x)
   \<and> ((\<forall>v. h (h v) = h v) \<longrightarrow>
        to_host_form h True (to_operator_form h gpu True x) = Inr (map h x))
   \<and> (to_host_form h True (to_operator_form h gpu True x) = Inr x
        \<longleftrightarrow> (\<forall>v \<in> set x. h (h v) = v))"
proof -
  have a: "to_host_form h False (to_operator_form h gpu False x) = Inr x"
    by (simp add: to_host_form_def to_operator_form_def numpy_def cpu_def cuda_def
          maybe_fp16_tensor_def maybe_fp16_def from_numpy_def Let_def)
  have b: "to_host_form h True (to_operator_form h gpu True x) = Inr (map (h \<circ> h) x)"
    by (simp add: to_host_form_def to_operator_form_def numpy_def cpu_def cuda_def
          maybe_fp16_tensor_def maybe_fp16_def from_numpy_def Let_def)
  have c: "(map (h \<circ> h) x = x) \<longleftrightarrow> (\<forall>v \<in> set x. h (h v) = v)"
    by (induction x) auto
  show ?thesis using a b c by auto
qed

theorem round_trip_witness:
  "to_host_form (half demo_ext) True (to_operator_form (half demo_ext) True True [2, 5, 8])
     = Inr [2, 4, 8]
   \<and> to_host_form (half demo_ext) True (to_operator_form (half demo_ext) True True [2, 4, 8])
     = Inr [2, 4, 8]
   \<and> to_host_form (half demo_ext) False (to_operator_form (half demo_ext) True False [2, 5, 8])
     = Inr [2, 5, 8]"
proof -
  have i: "\<forall>v. half demo_ext (half demo_ext v) = half demo_ext v"
    by (simp add: demo_ext_def)
  have f: "\<forall>v \<in> set [2, 4, 8]. half demo_ext (half demo_ext v) = v"
    by (simp add: demo_ext_def)
  show ?thesis
    using round_trip [of "half demo_ext" True "[2, 5, 8]"]
      round_trip [of "half demo_ext" True "[2, 4, 8]"] i f
    by (simp add: demo_ext_def)
qed

text \<open>
  C6.  When \<open>apply\<close> raises \<open>e\<close> on the operator form of \<open>x\<close>, the callback raises the same
  \<open>e\<close> on \<open>x\<close>, after that one call of \<open>apply\<close>: it catches nothing, wraps nothing and does
  not try again.  \<open>lanczos\<close> catches nothing either: when the scipy code that asked for the
  product lets the exception pass, the call ends with \<open>e\<close>, whether the request comes from the
  constructor of the linear operator (line 78) or from \<open>eigsh\<close> (line 85).  An exception
  that scipy catches does not end the call: the constructor of the linear operator catches an
  \<open>OverflowError\<close> of its probe.
\<close>

theorem apply_exception_propagates:
  assumes ex: "op_apply cls (operator w) (to_operator_form (half X) (use_gpu p) (fp16 p) x) = (Inl e, ob)"
    and cb: "cb = scipy_apply (half X) cls (use_gpu p) (fp16 p)"
    and wx: "wx = w\<lparr>operator := ob, apply_calls := Suc (apply_calls w)\<rparr>"
  shows "cb x w = (Inl e, wx)
       \<and> (reaches cb qa wa (Matvec x k) w \<and> k (Inl e) = Raise e
          \<longrightarrow> run cb qa wa = (Inl e, wx))
       \<and> (operator_size (op_size cls (operator wa)) = Inr n
            \<and> reaches cb (linop_init X (n, n))
                 (warn_if_few (derive_num_lanczos_vectors (num_lanczos_vectors p)
                    (num_eigenthings p) n) (num_eigenthings p) wa) (Matvec x kc) w
            \<and> kc (Inl e) = Raise e
          \<longrightarrow> lanczos X cls p wa = (Inl e, wx))
       \<and> (lanczos_prepare X cls p wa = (Inr (ea, iv), wb) \<and> eigsh_start X ea wb = (v, wc)
            \<and> reaches cb (arpack X ea v) wc (Matvec x ks) w
            \<and> ks (Inl e) = Raise e
          \<longrightarrow> lanczos X cls p wa = (Inl e, wx))"
proof (intro conjI impI)
  show a: "cb x w = (Inl e, wx)"
    using scipy_apply_raises [OF ex] cb wx by simp
  show "run cb qa wa = (Inl e, wx)"
    if h: "reaches cb qa wa (Matvec x k) w \<and> k (Inl e) = Raise e"
  proof -
    from h have r: "reaches cb qa wa (Matvec x k) w" and c: "k (Inl e) = Raise e" by simp_all
    show ?thesis by (rule run_aborts [OF r a c])
  qed
  show "lanczos X cls p wa = (Inl e, wx)"
    if h: "operator_size (op_size cls (operator wa)) = Inr n
            \<and> reaches cb (linop_init X (n, n))
                 (warn_if_few (derive_num_lanczos_vectors (num_lanczos_vectors p)
                    (num_eigenthings p) n) (num_eigenthings p) wa) (Matvec x kc) w
            \<and> kc (Inl e) = Raise e"
  proof -
    from h have sz: "operator_size (op_size cls (operator wa)) = Inr n" by simp
    from h have r: "reaches cb (linop_init X (n, n))
                 (warn_if_few (derive_num_lanczos_vectors (num_lanczos_vectors p)
                    (num_eigenthings p) n) (num_eigenthings p) wa) (Matvec x kc) w" by simp
    from h have c: "kc (Inl e) = Raise e" by simp
    have "run cb (linop_init X (n, n))
                 (warn_if_few (derive_num_lanczos_vectors (num_lanczos_vectors p)
                    (num_eigenthings p) n) (num_eigenthings p) wa) = (Inl e, wx)"
      by (rule run_aborts [OF r a c])
    then have "lanczos_prepare X cls p wa = (Inl e, wx)"
      using cb by (simp add: lanczos_prepare_sized [OF sz] Let_def)
    then show ?thesis by (rule lanczos_prepare_failed)
  qed
  show "lanczos X cls p wa = (Inl e, wx)"
    if h: "lanczos_prepare X cls p wa = (Inr (ea, iv), wb) \<and> eigsh_start X ea wb = (v, wc)
            \<and> reaches cb (arpack X ea v) wc (Matvec x ks) w
            \<and> ks (Inl e) = Raise e"
  proof -
    from h have r: "reaches cb (arpack X ea v) wc (Matvec x ks) w" by simp
    from h have c: "ks (Inl e) = Raise e" by simp
    have "run cb (arpack X ea v) wc = (Inl e, wx)"
      by (rule run_aborts [OF r a c])
    with h have "eigsh X cb ea wb = (Inl e, wx)" by (simp add: eigsh_def)
    with h show ?thesis using cb by (simp add: lanczos_def)
  qed
qed

theorem apply_exception_propagates_witness:
  "lanczos demo_ext failing_class demo_params (demo_world (SizeInt 3)) =
     (Inl (OtherError ''shape mismatch''),
      (demo_world (SizeInt 3))\<lparr>operator := \<lparr>d_size = SizeInt 3, d_calls = 1\<rparr>, apply_calls := 1\<rparr>)
   \<and> lanczos demo_ext flaky_class demo_params (demo_world (SizeInt 3)) =
     (Inl (OtherError ''device unavailable''),
      \<lparr>operator = \<lparr>d_size = SizeInt 3, d_calls = 2\<rparr>, apply_calls = 2, warnings = [],
       np_random = 3, solver_random = 1,
       eigsh_calls = [\<lparr>e_shape = (3, 3), e_k = 1, e_which = ''LM'', e_maxiter = 20,
                       e_tol = 1 / 1000000, e_ncv = 2, e_v0 = None,
                       e_return_eigenvectors = True\<rparr>]\<rparr>)"
proof
  let ?w0 = "demo_world (SizeInt 3)"
  let ?cb = "scipy_apply (half demo_ext) failing_class (use_gpu demo_params) (fp16 demo_params)"
  let ?kc = "\<lambda>r :: py_exn + int list. case r of
                Inl e \<Rightarrow> if e = OverflowError then Return () else Raise e
              | Inr y \<Rightarrow> Return ()"
  have ex: "op_apply failing_class (operator ?w0)
              (to_operator_form (half demo_ext) (use_gpu demo_params) (fp16 demo_params) [0, 0, 0])
            = (Inl (OtherError ''shape mismatch''), \<lparr>d_size = SizeInt 3, d_calls = 1\<rparr>)"
    by (simp add: demo_defs)
  have sz: "operator_size (op_size failing_class (operator ?w0)) = Inr 3"
    by (simp add: demo_defs)
  have q: "linop_init demo_ext (3, 3) = Matvec [0, 0, 0] ?kc"
    by (simp add: demo_ext_def numeral_3_eq_3)
  have wf: "warn_if_few (derive_num_lanczos_vectors (num_lanczos_vectors demo_params)
                 (num_eigenthings demo_params) 3) (num_eigenthings demo_params) ?w0 = ?w0"
    by (simp add: demo_defs)
  have r: "reaches ?cb (linop_init demo_ext (3, 3))
             (warn_if_few (derive_num_lanczos_vectors (num_lanczos_vectors demo_params)
                 (num_eigenthings demo_params) 3) (num_eigenthings demo_params) ?w0)
             (Matvec [0, 0, 0] ?kc) ?w0"
    unfolding q wf by (rule reaches.here)
  have c: "?kc (Inl (OtherError ''shape mismatch'')) = Raise (OtherError ''shape mismatch'')"
    by simp
  show "lanczos demo_ext failing_class demo_params ?w0 =
     (Inl (OtherError ''shape mismatch''),
      ?w0\<lparr>operator := \<lparr>d_size = SizeInt 3, d_calls = 1\<rparr>, apply_calls := 1\<rparr>)"
  proof -
    have "lanczos demo_ext failing_class demo_params ?w0 =
       (Inl (OtherError ''shape mismatch''),
        ?w0\<lparr>operator := \<lparr>d_size = SizeInt 3, d_calls = 1\<rparr>, apply_calls := Suc (apply_calls ?w0)\<rparr>)"
      using apply_exception_propagates [where wa = ?w0 and n = 3 and kc = ?kc,
          OF ex refl refl] sz r c
      by blast
    then show ?thesis by (simp add: demo_world_def)
  qed
next
  let ?w0 = "demo_world (SizeInt 3)"
  let ?cb = "scipy_apply (half demo_ext) flaky_class (use_gpu demo_params) (fp16 demo_params)"
  let ?ea = "\<lparr>e_shape = (3, 3), e_k = 1, e_which = ''LM'', e_maxiter = 20, e_tol = 1 / 1000000,
         e_ncv = 2, e_v0 = None, e_return_eigenvectors = True\<rparr> :: int eigsh_args"
  let ?w1 = "\<lparr>operator = \<lparr>d_size = SizeInt 3, d_calls = 1\<rparr>, apply_calls = 1,
       warnings = [], np_random = 3, solver_random = 0, eigsh_calls = []\<rparr> :: (int, demo_op) world"
  let ?w2 = "\<lparr>operator = \<lparr>d_size = SizeInt 3, d_calls = 1\<rparr>, apply_calls = 1,
       warnings = [], np_random = 3, solver_random = 1, eigsh_calls = [?ea]\<rparr> :: (int, demo_op) world"
  let ?k = "\<lambda>r :: py_exn + int list. case r of
               Inl e \<Rightarrow> Raise e
             | Inr y \<Rightarrow> Return ([2::int], \<lparr>nrows = length [0, 1, 2::int], ncols = 1,
                                      rows = map (\<lambda>a. [a]) [0, 1, 2::int]\<rparr>)"
  have pr: "lanczos_prepare demo_ext flaky_class demo_params ?w0 = (Inr (?ea, [0, 1, 2]), ?w1)"
    by (simp add: demo_defs upt_rec)
  have st: "eigsh_start demo_ext ?ea ?w1 = ([0, 1, 2], ?w2)"
    by (simp add: demo_defs upt_rec)
  have q: "arpack demo_ext ?ea [0, 1, 2] = Matvec [0, 1, 2] ?k"
    by (simp add: demo_ext_def fun_eq_iff split: sum.splits)
  have r: "reaches ?cb (arpack demo_ext ?ea [0, 1, 2]) ?w2 (Matvec [0, 1, 2] ?k) ?w2"
    unfolding q by (rule reaches.here)
  have c: "?k (Inl (OtherError ''device unavailable'')) = Raise (OtherError ''device unavailable'')"
    by simp
  have ex: "op_apply flaky_class (operator ?w2)
              (to_operator_form (half demo_ext) (use_gpu demo_params) (fp16 demo_params) [0, 1, 2])
            = (Inl (OtherError ''device unavailable''), \<lparr>d_size = SizeInt 3, d_calls = 2\<rparr>)"
    by (simp add: demo_defs)
  show "lanczos demo_ext flaky_class demo_params ?w0 =
     (Inl (OtherError ''device unavailable''),
      \<lparr>operator = \<lparr>d_size = SizeInt 3, d_calls = 2\<rparr>, apply_calls = 2, warnings = [],
       np_random = 3, solver_random = 1, eigsh_calls = [?ea]\<rparr>)"
  proof -
    have "lanczos demo_ext flaky_class demo_params ?w0 =
       (Inl (OtherError ''device unavailable''),
        ?w2\<lparr>operator := \<lparr>d_size = SizeInt 3, d_calls = 2\<rparr>, apply_calls := Suc (apply_calls ?w2)\<rparr>)"
      using apply_exception_propagates [where wa = ?w0 and ea = ?ea and iv = "[0, 1, 2]"
          and wb = ?w1 and v = "[0, 1, 2]" and wc = ?w2 and ks = ?k, OF ex refl refl]
        pr st r c
      by blast
    then show ?thesis by simp
  qed
qed

text \<open>
  The constructor of the linear operator probes an operator of size 3 with zeros; \<open>apply\<close>
  raises an \<open>OverflowError\<close> there and the callback passes it on, the constructor catches it,
  and the call goes on to \<open>eigsh\<close> and returns eigenpairs.
\<close>

theorem probe_exception_swallowed:
  "op_apply overflow_class (operator (demo_world (SizeInt 3)))
       (to_operator_form (half demo_ext) (use_gpu demo_params) (fp16 demo_params) [0, 0, 0])
     = (Inl OverflowError, \<lparr>d_size = SizeInt 3, d_calls = 1\<rparr>)
   \<and> scipy_apply (half demo_ext) overflow_class (use_gpu demo_params) (fp16 demo_params)
       [0, 0, 0] (demo_world (SizeInt 3))
     = (Inl OverflowError,
        (demo_world (SizeInt 3))\<lparr>operator := \<lparr>d_size = SizeInt 3, d_calls = 1\<rparr>,
                                  apply_calls := 1\<rparr>)
   \<and> lanczos demo_ext overflow_class demo_params (demo_world (SizeInt 3)) =
       (Inr ([2], \<lparr>nrows = 1, ncols = 3, rows = [[0, 1, 2]]\<rparr>),
        \<lparr>operator = \<lparr>d_size = SizeInt 3, d_calls = 2\<rparr>, apply_calls = 2, warnings = [],
         np_random = 3, solver_random = 1,
         eigsh_calls = [\<lparr>e_shape = (3, 3), e_k = 1, e_which = ''LM'', e_maxiter = 20,
                         e_tol = 1 / 1000000, e_ncv = 2, e_v0 = None,
                         e_return_eigenvectors = True\<rparr>]\<rparr>)
   \<and> fst (lanczos demo_ext overflow_class demo_params (demo_world (SizeInt 3)))
       \<noteq> Inl OverflowError"
  by (simp add: demo_defs upt_rec)

text \<open>
  C7.  Lines 79 to 84, with \<open>maybe_fp16\<close> as the spec describes it.  Without an argument the
  vector is \<open>size\<close> values taken from numpy's random stream, which advances by \<open>size\<close> (a
  negative size raises); a tensor argument is taken to the host and turned into an array with
  the same entries (a tensor that requires grad raises); an array is taken as it is.  In every
  case \<open>maybe_fp16\<close> is then applied with the flag \<open>fp16\<close>, the function and flag that the
  callback applies to each iteration vector.  A call of \<open>lanczos\<close> whose operator size is
  determined and whose linear operator is constructed goes through these lines with the
  operator size, and fails or goes on to the solver as they do.
\<close>

theorem init_vec_policy:
  "prepare_init_vec X sz None b w =
     (if sz < 0 then (Inl ValueError, w)
      else (Inr (maybe_fp16 (half X) (map (\<lambda>i. rand X (np_random w + i)) [0..<nat sz]) b),
            w\<lparr>np_random := np_random w + nat sz\<rparr>))
   \<and> (0 \<le> sz \<longrightarrow>
        int (length (maybe_fp16 (half X) (map (\<lambda>i. rand X (np_random w + i)) [0..<nat sz]) b))
          = sz)
   \<and> prepare_init_vec X sz (Some (Tensor t)) b w =
       (if requires_grad t then (Inl RuntimeError, w)
        else (Inr (maybe_fp16 (half X) (data t) b), w))
   \<and> prepare_init_vec X sz (Some (Array a)) b w = (Inr (maybe_fp16 (half X) a b), w)
   \<and> data (to_operator_form (half X) gpu b x) = maybe_fp16 (half X) x b
   \<and> (operator_size (op_size cls (operator wa)) = Inr n
        \<and> run (scipy_apply (half X) cls (use_gpu p) (fp16 p)) (linop_init X (n, n))
             (warn_if_few (derive_num_lanczos_vectors (num_lanczos_vectors p)
                (num_eigenthings p) n) (num_eigenthings p) wa) = (Inr u, w)
      \<longrightarrow> lanczos_prepare X cls p wa =
            (case prepare_init_vec X n (init_vec p) (fp16 p) w of
               (Inl e, w3) \<Rightarrow> (Inl e, w3)
             | (Inr iv, w3) \<Rightarrow>
                 (Inr (\<lparr>e_shape = (n, n), e_k = num_eigenthings p, e_which = which p,
                        e_maxiter = max_steps p, e_tol = tol p,
                        e_ncv = derive_num_lanczos_vectors (num_lanczos_vectors p)
                                  (num_eigenthings p) n,
                        e_v0 = None, e_return_eigenvectors = True\<rparr>, iv), w3)))"
proof (intro conjI impI)
  show "prepare_init_vec X sz None b w =
     (if sz < 0 then (Inl ValueError, w)
      else (Inr (maybe_fp16 (half X) (map (\<lambda>i. rand X (np_random w + i)) [0..<nat sz]) b),
            w\<lparr>np_random := np_random w + nat sz\<rparr>))"
    by (simp add: prepare_init_vec_def np_random_rand_def)
  show "int (length (maybe_fp16 (half X) (map (\<lambda>i. rand X (np_random w + i)) [0..<nat sz]) b))
          = sz" if "0 \<le> sz"
    using that by (simp add: maybe_fp16_def)
  show "prepare_init_vec X sz (Some (Tensor t)) b w =
       (if requires_grad t then (Inl RuntimeError, w)
        else (Inr (maybe_fp16 (half X) (data t) b), w))"
    by (simp add: prepare_init_vec_def numpy_cpu)
  show "prepare_init_vec X sz (Some (Array a)) b w = (Inr (maybe_fp16 (half X) a b), w)"
    by (simp add: prepare_init_vec_def)
  show "data (to_operator_form (half X) gpu b x) = maybe_fp16 (half X) x b"
    by (simp add: to_operator_form_def from_numpy_def maybe_fp16_tensor_def cuda_def Let_def)
  show "lanczos_prepare X cls p wa =
            (case prepare_init_vec X n (init_vec p) (fp16 p) w of
               (Inl e, w3) \<Rightarrow> (Inl e, w3)
             | (Inr iv, w3) \<Rightarrow>
                 (Inr (\<lparr>e_shape = (n, n), e_k = num_eigenthings p, e_which = which p,
                        e_maxiter = max_steps p, e_tol = tol p,
                        e_ncv = derive_num_lanczos_vectors (num_lanczos_vectors p)
                                  (num_eigenthings p) n,
                        e_v0 = None, e_return_eigenvectors = True\<rparr>, iv), w3))"
    if h: "operator_size (op_size cls (operator wa)) = Inr n
        \<and> run (scipy_apply (half X) cls (use_gpu p) (fp16 p)) (linop_init X (n, n))
             (warn_if_few (derive_num_lanczos_vectors (num_lanczos_vectors p)
                (num_eigenthings p) n) (num_eigenthings p) wa) = (Inr u, w)"
  proof -
    from h have sz: "operator_size (op_size cls (operator wa)) = Inr n" by simp
    show ?thesis
      using h by (simp add: lanczos_prepare_sized [OF sz] Let_def split: prod.splits sum.splits)
  qed
qed

theorem init_vec_policy_witness:
  "lanczos_prepare demo_ext counting_class demo_params (demo_world (SizeInt 3)) =
     (Inr (\<lparr>e_shape = (3, 3), e_k = 1, e_which = ''LM'', e_maxiter = 20, e_tol = 1 / 1000000,
            e_ncv = 2, e_v0 = None, e_return_eigenvectors = True\<rparr>, [0, 1, 2]),
      \<lparr>operator = \<lparr>d_size = SizeInt 3, d_calls = 1\<rparr>, apply_calls = 1,
       warnings = [], np_random = 3, solver_random = 0, eigsh_calls = []\<rparr>)
   \<and> lanczos_prepare demo_ext counting_class
       (demo_params\<lparr>init_vec := Some (Tensor \<lparr>data = [3, 5, 8], device = Cuda,
                                               requires_grad = False\<rparr>), fp16 := True\<rparr>)
       (demo_world (SizeInt 3)) =
     (Inr (\<lparr>e_shape = (3, 3), e_k = 1, e_which = ''LM'', e_maxiter = 20, e_tol = 1 / 1000000,
            e_ncv = 2, e_v0 = None, e_return_eigenvectors = True\<rparr>, [2, 4, 8]),
      \<lparr>operator = \<lparr>d_size = SizeInt 3, d_calls = 1\<rparr>, apply_calls = 1,
       warnings = [], np_random = 0, solver_random = 0, eigsh_calls = []\<rparr>)
   \<and> lanczos_prepare demo_ext counting_class
       (demo_params\<lparr>init_vec := Some (Tensor \<lparr>data = [3, 5, 8], device = Cpu,
                                               requires_grad = True\<rparr>)\<rparr>)
       (demo_world (SizeInt 3)) =
     (Inl RuntimeError,
      \<lparr>operator = \<lparr>d_size = SizeInt 3, d_calls = 1\<rparr>, apply_calls = 1,
       warnings = [], np_random = 0, solver_random = 0, eigsh_calls = []\<rparr>)"
proof (intro conjI)
  let ?w0 = "demo_world (SizeInt 3)"
  let ?wc = "\<lparr>operator = \<lparr>d_size = SizeInt 3, d_calls = 1\<rparr>, apply_calls = 1,
       warnings = [], np_random = 0, solver_random = 0, eigsh_calls = []\<rparr> :: (int, demo_op) world"
  let ?pt = "demo_params\<lparr>init_vec := Some (Tensor \<lparr>data = [3, 5, 8], device = Cuda,
                                               requires_grad = False\<rparr>), fp16 := True\<rparr>"
  let ?pg = "demo_params\<lparr>init_vec := Some (Tensor \<lparr>data = [3, 5, 8], device = Cpu,
                                               requires_grad = True\<rparr>)\<rparr>"
  have sz: "operator_size (op_size counting_class (operator ?w0)) = Inr 3"
    by (simp add: counting_class_def demo_world_def)
  have c1: "run (scipy_apply (half demo_ext) counting_class (use_gpu demo_params) (fp16 demo_params))
        (linop_init demo_ext (3, 3))
        (warn_if_few (derive_num_lanczos_vectors (num_lanczos_vectors demo_params)
            (num_eigenthings demo_params) 3) (num_eigenthings demo_params) ?w0) = (Inr (), ?wc)"
    by (simp add: demo_params_def demo_ext_def counting_class_def demo_world_def
          derive_num_lanczos_vectors_def warn_if_few_def scipy_apply_def to_operator_form_def
          to_host_form_def from_numpy_def maybe_fp16_tensor_def maybe_fp16_def cpu_def
          numpy_def Let_def)
  have c2: "run (scipy_apply (half demo_ext) counting_class (use_gpu ?pt) (fp16 ?pt))
        (linop_init demo_ext (3, 3))
        (warn_if_few (derive_num_lanczos_vectors (num_lanczos_vectors ?pt)
            (num_eigenthings ?pt) 3) (num_eigenthings ?pt) ?w0) = (Inr (), ?wc)"
    by (simp add: demo_params_def demo_ext_def counting_class_def demo_world_def
          derive_num_lanczos_vectors_def warn_if_few_def scipy_apply_def to_operator_form_def
          to_host_form_def from_numpy_def maybe_fp16_tensor_def maybe_fp16_def cpu_def
          numpy_def Let_def)
  have c3: "run (scipy_apply (half demo_ext) counting_class (use_gpu ?pg) (fp16 ?pg))
        (linop_init demo_ext (3, 3))
        (warn_if_few (derive_num_lanczos_vectors (num_lanczos_vectors ?pg)
            (num_eigenthings ?pg) 3) (num_eigenthings ?pg) ?w0) = (Inr (), ?wc)"
    by (simp add: demo_params_def demo_ext_def counting_class_def demo_world_def
          derive_num_lanczos_vectors_def warn_if_few_def scipy_apply_def to_operator_form_def
          to_host_form_def from_numpy_def maybe_fp16_tensor_def maybe_fp16_def cpu_def
          numpy_def Let_def)
  have hx: "half demo_ext = (\<lambda>v. 2 * (v div 2))" "rand demo_ext = int"
    by (simp_all add: demo_ext_def)
  show "lanczos_prepare demo_ext counting_class demo_params ?w0 =
     (Inr (\<lparr>e_shape = (3, 3), e_k = 1, e_which = ''LM'', e_maxiter = 20, e_tol = 1 / 1000000,
            e_ncv = 2, e_v0 = None, e_return_eigenvectors = True\<rparr>, [0, 1, 2]),
      \<lparr>operator = \<lparr>d_size = SizeInt 3, d_calls = 1\<rparr>, apply_calls = 1,
       warnings = [], np_random = 3, solver_random = 0, eigsh_calls = []\<rparr>)"
  proof -
    note th = init_vec_policy [where X = demo_ext and cls = counting_class and p = demo_params
        and wa = ?w0 and n = 3 and u = "()" and w = ?wc and sz = 3 and b = False]
    have l: "lanczos_prepare demo_ext counting_class demo_params ?w0 =
            (case prepare_init_vec demo_ext 3 (init_vec demo_params) (fp16 demo_params) ?wc of
               (Inl e, w3) \<Rightarrow> (Inl e, w3)
             | (Inr iv, w3) \<Rightarrow>
                 (Inr (\<lparr>e_shape = (3, 3), e_k = num_eigenthings demo_params,
                        e_which = which demo_params, e_maxiter = max_steps demo_params,
                        e_tol = tol demo_params,
                        e_ncv = derive_num_lanczos_vectors (num_lanczos_vectors demo_params)
                                  (num_eigenthings demo_params) 3,
                        e_v0 = None, e_return_eigenvectors = True\<rparr>, iv), w3))"
      using th sz c1 by blast
    have e: "prepare_init_vec demo_ext 3 None False ?wc =
       (if (3::int) < 0 then (Inl ValueError, ?wc)
        else (Inr (maybe_fp16 (half demo_ext)
                     (map (\<lambda>i. rand demo_ext (np_random ?wc + i)) [0..<nat 3]) False),
              ?wc\<lparr>np_random := np_random ?wc + nat 3\<rparr>))"
      using th by blast
    show ?thesis
      using l e
      by (simp add: demo_params_def hx maybe_fp16_def derive_num_lanczos_vectors_def upt_rec)
  qed
  show "lanczos_prepare demo_ext counting_class ?pt ?w0 =
     (Inr (\<lparr>e_shape = (3, 3), e_k = 1, e_which = ''LM'', e_maxiter = 20, e_tol = 1 / 1000000,
            e_ncv = 2, e_v0 = None, e_return_eigenvectors = True\<rparr>, [2, 4, 8]), ?wc)"
  proof -
    note th = init_vec_policy [where X = demo_ext and cls = counting_class and p = ?pt
        and wa = ?w0 and n = 3 and u = "()" and w = ?wc and sz = 3 and b = True
        and t = "\<lparr>data = [3, 5, 8], device = Cuda, requires_grad = False\<rparr>"]
    have l: "lanczos_prepare demo_ext counting_class ?pt ?w0 =
            (case prepare_init_vec demo_ext 3 (init_vec ?pt) (fp16 ?pt) ?wc of
               (Inl e, w3) \<Rightarrow> (Inl e, w3)
             | (Inr iv, w3) \<Rightarrow>
                 (Inr (\<lparr>e_shape = (3, 3), e_k = num_eigenthings ?pt,
                        e_which = which ?pt, e_maxiter = max_steps ?pt,
                        e_tol = tol ?pt,
                        e_ncv = derive_num_lanczos_vectors (num_lanczos_vectors ?pt)
                                  (num_eigenthings ?pt) 3,
                        e_v0 = None, e_return_eigenvectors = True\<rparr>, iv), w3))"
      using th sz c2 by blast
    have e: "prepare_init_vec demo_ext 3
               (Some (Tensor \<lparr>data = [3, 5, 8], device = Cuda, requires_grad = False\<rparr>)) True ?wc =
       (if requires_grad \<lparr>data = [3, 5, 8::int], device = Cuda, requires_grad = False\<rparr>
        then (Inl RuntimeError, ?wc)
        else (Inr (maybe_fp16 (half demo_ext)
                     (data \<lparr>data = [3, 5, 8], device = Cuda, requires_grad = False\<rparr>) True),
              ?wc))"
      using th by blast
    show ?thesis
      using l e
      by (simp add: demo_params_def hx maybe_fp16_def derive_num_lanczos_vectors_def)
  qed
  show "lanczos_prepare demo_ext counting_class ?pg ?w0 = (Inl RuntimeError, ?wc)"
  proof -
    note th = init_vec_policy [where X = demo_ext and cls = counting_class and p = ?pg
        and wa = ?w0 and n = 3 and u = "()" and w = ?wc and sz = 3 and b = False
        and t = "\<lparr>data = [3, 5, 8], device = Cpu, requires_grad = True\<rparr>"]
    have l: "lanczos_prepare demo_ext counting_class ?pg ?w0 =
            (case prepare_init_vec demo_ext 3 (init_vec ?pg) (fp16 ?pg) ?wc of
               (Inl e, w3) \<Rightarrow> (Inl e, w3)
             | (Inr iv, w3) \<Rightarrow>
                 (Inr (\<lparr>e_shape = (3, 3), e_k = num_eigenthings ?pg,
                        e_which = which ?pg, e_maxiter = max_steps ?pg,
                        e_tol = tol ?pg,
                        e_ncv = derive_num_lanczos_vectors (num_lanczos_vectors ?pg)
                                  (num_eigenthings ?pg) 3,
                        e_v0 = None, e_return_eigenvectors = True\<rparr>, iv), w3))"
      using th sz c3 by blast
    have e: "prepare_init_vec demo_ext 3
               (Some (Tensor \<lparr>data = [3, 5, 8], device = Cpu, requires_grad = True\<rparr>)) False ?wc =
       (if requires_grad \<lparr>data = [3, 5, 8::int], device = Cpu, requires_grad = True\<rparr>
        then (Inl RuntimeError, ?wc)
        else (Inr (maybe_fp16 (half demo_ext)
                     (data \<lparr>data = [3, 5, 8], device = Cpu, requires_grad = True\<rparr>) False),
              ?wc))"
      using th by blast
    show ?thesis
      using l e by (simp add: demo_params_def)
  qed
qed

text \<open>
  C8.  \<open>lanczos\<close> reads \<open>operator.size\<close> and calls \<open>operator.apply\<close>, and does nothing else
  to the operator object: whatever holds of the object before the call and is kept by every
  call of \<open>apply\<close> holds after the call.  In particular an operator whose \<open>apply\<close> leaves the
  object as it is, is the same object after the call as before.
\<close>

theorem lanczos_operator_frame:
  "(P (operator w) \<and> (\<forall>ob x. P ob \<longrightarrow> P (snd (op_apply cls ob x)))
      \<longrightarrow> P (operator (snd (lanczos X cls p w))))
   \<and> ((\<forall>ob x. snd (op_apply cls ob x) = ob)
      \<longrightarrow> operator (snd (lanczos X cls p w)) = operator w)"
proof (intro conjI impI)
  assume "P (operator w) \<and> (\<forall>ob x. P ob \<longrightarrow> P (snd (op_apply cls ob x)))"
  then show "P (operator (snd (lanczos X cls p w)))"
    using lanczos_operator [of P cls w X p] by blast
next
  assume "\<forall>ob x. snd (op_apply cls ob x) = ob"
  then show "operator (snd (lanczos X cls p w)) = operator w"
    using lanczos_operator [of "\<lambda>ob. ob = operator w" cls w X p] by simp
qed

theorem lanczos_operator_frame_witness:
  "d_size (operator (snd (lanczos demo_ext counting_class demo_params (demo_world (SizeInt 3)))))
     = SizeInt 3
   \<and> operator (snd (lanczos demo_ext pure_class demo_params (demo_world (SizeInt 3))))
     = \<lparr>d_size = SizeInt 3, d_calls = 0\<rparr>"
proof
  show "d_size (operator (snd (lanczos demo_ext counting_class demo_params (demo_world (SizeInt 3)))))
     = SizeInt 3"
    using lanczos_operator_frame [of "\<lambda>ob. d_size ob = SizeInt 3" "demo_world (SizeInt 3)"
        counting_class demo_ext demo_params]
    by (simp add: counting_class_def demo_world_def)
next
  show "operator (snd (lanczos demo_ext pure_class demo_params (demo_world (SizeInt 3))))
     = \<lparr>d_size = SizeInt 3, d_calls = 0\<rparr>"
    using lanczos_operator_frame [of "\<lambda>ob. True" "demo_world (SizeInt 3)"
        pure_class demo_ext demo_params]
    by (simp add: pure_class_def demo_world_def)
qed

text \<open>
  C9.  With \<open>num_lanczos_vectors\<close> unset and an operator size of at most
  \<open>2 * num_eigenthings\<close>, the derived count is \<open>size - 1\<close>, which is less than
  \<open>2 * num_eigenthings\<close>, and the advisory is emitted.
\<close>

theorem lanczos_default_fires_advisory:
  assumes "num_lanczos_vectors p = None"
    and "operator_size (op_size cls (operator w)) = Inr n"
    and "n \<le> 2 * num_eigenthings p"
  shows "derive_num_lanczos_vectors (num_lanczos_vectors p) (num_eigenthings p) n = n - 1
       \<and> n - 1 < 2 * num_eigenthings p
       \<and> warnings (snd (lanczos X cls p w)) = warnings w @ [advisory]"
proof -
  have d: "derive_num_lanczos_vectors (num_lanczos_vectors p) (num_eigenthings p) n = n - 1"
    using assms(1,3) by (simp add: derive_num_lanczos_vectors_def)
  have l: "n - 1 < 2 * num_eigenthings p" using assms(3) by simp
  have "warnings (snd (lanczos X cls p w)) = warnings w @ [advisory]"
    using d l by (simp add: lanczos_warnings lanczos_prepare_warnings [OF assms(2)])
  with d l show ?thesis by simp
qed

theorem lanczos_default_fires_advisory_witness:
  "derive_num_lanczos_vectors (num_lanczos_vectors demo_params) (num_eigenthings demo_params) 2 = 2 - 1
   \<and> (2::int) - 1 < 2 * num_eigenthings demo_params
   \<and> warnings (snd (lanczos demo_ext counting_class demo_params (demo_world (SizeShape [2, 2]))))
       = [advisory]"
  using lanczos_default_fires_advisory [of demo_params counting_class "demo_world (SizeShape [2, 2])" 2 demo_ext]
  by (simp add: demo_params_def counting_class_def demo_world_def)

text \<open>
  C10.  Lines 85 to 93 call \<open>eigsh\<close> without \<open>v0\<close>: the vector prepared in lines 79 to 84 is
  not given to the solver, which starts from a vector of its own random source.  Two runs
  on the same operator, with the same arguments and the same supplied \<open>init_vec\<close>, that differ
  only in the state of the solver's random source, return different eigenvectors; no value
  of numpy's random stream is drawn in them.
\<close>

theorem supplied_init_vec_not_passed:
  "fst (lanczos demo_ext pure_class (demo_params\<lparr>init_vec := Some (Array [1, 0, 0])\<rparr>)
          ((demo_world (SizeInt 3))\<lparr>solver_random := 0\<rparr>))
     = Inr ([2], \<lparr>nrows = 1, ncols = 3, rows = [[0, 1, 2]]\<rparr>)
   \<and> fst (lanczos demo_ext pure_class (demo_params\<lparr>init_vec := Some (Array [1, 0, 0])\<rparr>)
          ((demo_world (SizeInt 3))\<lparr>solver_random := 1\<rparr>))
     = Inr ([2], \<lparr>nrows = 1, ncols = 3, rows = [[1, 2, 3]]\<rparr>)
   \<and> map e_v0 (eigsh_calls (snd (lanczos demo_ext pure_class
          (demo_params\<lparr>init_vec := Some (Array [1, 0, 0])\<rparr>)
          ((demo_world (SizeInt 3))\<lparr>solver_random := 0\<rparr>)))) = [None]
   \<and> np_random (snd (lanczos demo_ext pure_class
          (demo_params\<lparr>init_vec := Some (Array [1, 0, 0])\<rparr>)
          ((demo_world (SizeInt 3))\<lparr>solver_random := 0\<rparr>))) = 0"
  by (simp add: demo_defs upt_rec)

end
